theory Spec2Isabelle
  imports Main
begin

section \<open>The service config of gRPC core: \<open>src/core/lib/transport/service_config.c\<close>\<close>

subsection \<open>The JSON tree\<close>

text \<open>
  Modelled from the spec: the declaration of \<open>grpc_json\<close> (\<open>json.h\<close>) is not part of
  the file, which only reads the members \<open>type\<close>, \<open>key\<close>, \<open>value\<close>, \<open>child\<close> and
  \<open>next\<close>. The spec describes the node as a "tagged union over {object, array, string,
  number, bool, null}" with "ordered children" whose "keys may be absent". The nullable C
  strings \<open>key\<close> and \<open>value\<close> are \<open>string option\<close>; the linked list of children
  (\<open>child\<close>, then \<open>next\<close> from sibling to sibling) is a list in document order.
\<close>

datatype grpc_json_type =
  GRPC_JSON_OBJECT | GRPC_JSON_ARRAY | GRPC_JSON_STRING | GRPC_JSON_NUMBER
  | GRPC_JSON_TRUE | GRPC_JSON_FALSE | GRPC_JSON_NULL

datatype grpc_json =
  Json (json_type: grpc_json_type) (json_key: "string option")
       (json_value: "string option") (json_child: "grpc_json list")

record grpc_service_config =
  json_string :: string
  json_tree :: grpc_json

subsection \<open>Undefined behaviour, effects on caller-owned resources\<close>

text \<open>
  The places where the C code leaves defined behaviour are results of the model:
  \<^item> \<open>Null_string_argument\<close>: \<open>grpc_mdstr_from_string\<close> is handed a NULL path, of which
    it takes the length;
  \<^item> \<open>Write_past_buffer_end\<close>: \<open>entries[*idx]\<close> is written with \<open>*idx\<close> not below the
    number of slots that were allocated;
  \<^item> \<open>Assertion_failed\<close>: \<open>GPR_ASSERT(idx == num_entries)\<close> aborts;
  \<^item> \<open>Null_pointer_offset\<close>: \<open>strrchr\<close> returned NULL and one is added to it.
\<close>

datatype fault =
  Null_string_argument | Write_past_buffer_end | Assertion_failed | Null_pointer_offset

text \<open>
  The calls that acquire or release something are logged in call order: the factory
  \<open>create_value\<close>, the vtable's \<open>copy_value\<close> (logged with the copy it returned) and
  \<open>destroy_value\<close>, the interned keys (\<open>grpc_mdstr_from_string\<close>, \<open>GRPC_MDSTR_REF\<close>,
  \<open>GRPC_MDSTR_UNREF\<close>) and the entries buffer (\<open>gpr_malloc\<close>, \<open>gpr_free\<close>).
\<close>

datatype 'v event =
  Create_value 'v | Copy_value 'v | Destroy_value 'v
  | Mdstr_from_string string | Mdstr_ref string | Mdstr_unref string
  | Malloc_entries nat | Free_entries

text \<open>
  The entries buffer while it is filled: the slots written so far, in index order
  (\<open>*idx\<close> is their number), and the log.
\<close>

record 'v staging =
  entries :: "(string \<times> 'v) list"
  trace :: "'v event list"

subsection \<open>\<open>grpc_service_config_get_lb_policy_name\<close>\<close>

fun lb_policy_name_loop :: "grpc_json list \<Rightarrow> string option \<Rightarrow> string option" where
  "lb_policy_name_loop [] lb_policy_name = lb_policy_name"
| "lb_policy_name_loop (field # rest) lb_policy_name =
     (case json_key field of
        None \<Rightarrow> None
      | Some k \<Rightarrow>
          if k = ''loadBalancingPolicy'' then
            (case lb_policy_name of
               Some _ \<Rightarrow> None
             | None \<Rightarrow>
                 if json_type field = GRPC_JSON_STRING
                 then lb_policy_name_loop rest (json_value field)
                 else None)
          else lb_policy_name_loop rest lb_policy_name)"

definition grpc_service_config_get_lb_policy_name :: "grpc_service_config \<Rightarrow> string option" where
  "grpc_service_config_get_lb_policy_name service_config =
     (let json = json_tree service_config in
      if json_type json = GRPC_JSON_OBJECT then
        (case json_key json of
           Some _ \<Rightarrow> None
         | None \<Rightarrow> lb_policy_name_loop (json_child json) None)
      else None)"

subsection \<open>\<open>count_names_in_method_config_json\<close>\<close>

text \<open>
  \<open>num_names\<close> is a \<open>size_t\<close> that is incremented once per child at most; a tree in
  memory has fewer nodes than \<open>size_t\<close> has values, so the count is a \<open>nat\<close>.
\<close>

fun count_names_loop :: "grpc_json list \<Rightarrow> nat \<Rightarrow> nat" where
  "count_names_loop [] num_names = num_names"
| "count_names_loop (field # rest) num_names =
     (case json_key field of
        None \<Rightarrow> count_names_loop rest num_names
      | Some k \<Rightarrow>
          if k = ''name'' then count_names_loop rest (num_names + 1)
          else count_names_loop rest num_names)"

definition count_names_in_method_config_json :: "grpc_json \<Rightarrow> nat" where
  "count_names_in_method_config_json json = count_names_loop (json_child json) 0"

subsection \<open>\<open>parse_json_method_name\<close>\<close>

fun method_name_loop :: "grpc_json list \<Rightarrow> string option \<Rightarrow> string option \<Rightarrow> string option" where
  "method_name_loop [] service_name method_name =
     (case service_name of
        None \<Rightarrow> None
      | Some s \<Rightarrow>
          Some (''/'' @ s @ ''/'' @ (case method_name of None \<Rightarrow> ''*'' | Some m \<Rightarrow> m)))"
| "method_name_loop (c # rest) service_name method_name =
     (case json_key c of
        None \<Rightarrow> None
      | Some k \<Rightarrow>
          if json_type c = GRPC_JSON_STRING then
            if k = ''service'' then
              (case service_name of
                 Some _ \<Rightarrow> None
               | None \<Rightarrow>
                   (case json_value c of
                      None \<Rightarrow> None
                    | Some v \<Rightarrow> method_name_loop rest (Some v) method_name))
            else if k = ''method'' then
              (case method_name of
                 Some _ \<Rightarrow> None
               | None \<Rightarrow>
                   (case json_value c of
                      None \<Rightarrow> None
                    | Some v \<Rightarrow> method_name_loop rest service_name (Some v)))
            else method_name_loop rest service_name method_name
          else None)"

definition parse_json_method_name :: "grpc_json \<Rightarrow> string option" where
  "parse_json_method_name json =
     (if json_type json = GRPC_JSON_OBJECT
      then method_name_loop (json_child json) None None
      else None)"

subsection \<open>\<open>parse_json_method_config\<close>\<close>

text \<open>
  The first loop fills the string vector \<open>paths\<close>. The result of
  \<open>parse_json_method_name\<close> is added as it is, NULL included: \<open>gpr_strvec_add\<close> stores
  the pointer it is given. \<open>None\<close> is the \<open>goto done\<close> of a \<open>"name"\<close> field that is not
  an array.
\<close>

fun method_config_paths_loop ::
  "grpc_json list \<Rightarrow> string option list \<Rightarrow> string option list option" where
  "method_config_paths_loop [] paths = Some paths"
| "method_config_paths_loop (c # rest) paths =
     (case json_key c of
        None \<Rightarrow> method_config_paths_loop rest paths
      | Some k \<Rightarrow>
          if k = ''name'' then
            if json_type c = GRPC_JSON_ARRAY
            then method_config_paths_loop rest (paths @ map parse_json_method_name (json_child c))
            else None
          else method_config_paths_loop rest paths)"

text \<open>
  Modelled from the spec: \<open>grpc_mdstr_from_string\<close> is one of the "string
  interning/allocation primitives" that the spec leaves outside; it is not part of the
  file. It interns the C string it is given and reads that string to its end, so NULL is
  not an argument it is defined for.
\<close>

definition grpc_mdstr_from_string :: "string option \<Rightarrow> fault + string" where
  "grpc_mdstr_from_string str =
     (case str of None \<Rightarrow> Inl Null_string_argument | Some s \<Rightarrow> Inr s)"

text \<open>
  The second loop writes one entry per path at \<open>entries[*idx]\<close>. \<open>num_entries\<close> is the
  number of slots of the buffer. The key is computed before it is stored, so a NULL path
  reaches \<open>grpc_mdstr_from_string\<close> before the slot is touched.
\<close>

fun add_entries_loop ::
  "('v \<Rightarrow> 'v) \<Rightarrow> 'v \<Rightarrow> nat \<Rightarrow> string option list \<Rightarrow> 'v staging \<Rightarrow> fault + 'v staging" where
  "add_entries_loop copy_value method_config num_entries [] st = Inr st"
| "add_entries_loop copy_value method_config num_entries (p # ps) st =
     (case grpc_mdstr_from_string p of
        Inl f \<Rightarrow> Inl f
      | Inr k \<Rightarrow>
          if length (entries st) < num_entries then
            add_entries_loop copy_value method_config num_entries ps
              (st\<lparr>entries := entries st @ [(k, copy_value method_config)],
                  trace := trace st @ [Mdstr_from_string k, Copy_value (copy_value method_config)]\<rparr>)
          else Inl Write_past_buffer_end)"

definition destroy_value :: "'v \<Rightarrow> 'v staging \<Rightarrow> 'v staging" where
  "destroy_value v st = st\<lparr>trace := trace st @ [Destroy_value v]\<rparr>"

definition parse_json_method_config ::
  "(grpc_json \<Rightarrow> 'v option) \<Rightarrow> ('v \<Rightarrow> 'v) \<Rightarrow> grpc_json \<Rightarrow> nat \<Rightarrow> 'v staging
     \<Rightarrow> fault + (bool \<times> 'v staging)" where
  "parse_json_method_config create_value copy_value json num_entries st =
     (case create_value json of
        None \<Rightarrow> Inr (False, st)
      | Some method_config \<Rightarrow>
          (let st1 = st\<lparr>trace := trace st @ [Create_value method_config]\<rparr> in
           case method_config_paths_loop (json_child json) [] of
             None \<Rightarrow> Inr (False, destroy_value method_config st1)
           | Some paths \<Rightarrow>
               if paths = [] then Inr (False, destroy_value method_config st1)
               else
                 (case add_entries_loop copy_value method_config num_entries paths st1 of
                    Inl f \<Rightarrow> Inl f
                  | Inr st2 \<Rightarrow> Inr (True, destroy_value method_config st2))))"

subsection \<open>The table\<close>

text \<open>
  Modelled from the spec: the table type of \<open>mdstr_hash_table.h\<close> is not part of the
  file. The spec describes "a generic immutable mapping structure keyed by interned
  strings, supporting bulk construction from a list of (key, opaque value,
  value-behavior-descriptor) entries and O(1) point lookup". The table is the list of the
  entries it was built from.
\<close>

type_synonym 'v grpc_mdstr_hash_table = "(string \<times> 'v) list"

text \<open>
  Modelled from the spec: \<open>grpc_mdstr_hash_table_create\<close> is not part of the file. The
  staged copies are "further copied into, and then released" the table's storage, so
  that "each table entry owns its own independent copy": the table holds a copy of the
  value of each of the \<open>num_entries\<close> entries.
\<close>

definition grpc_mdstr_hash_table_create ::
  "('v \<Rightarrow> 'v) \<Rightarrow> nat \<Rightarrow> (string \<times> 'v) list \<Rightarrow> 'v grpc_mdstr_hash_table" where
  "grpc_mdstr_hash_table_create copy_value num_entries es =
     map (\<lambda>(k, v). (k, copy_value v)) (take num_entries es)"

text \<open>
  Modelled from the spec: what \<open>grpc_mdstr_hash_table_create\<close>, which is not part of the
  file, acquires for the table: a reference to each key and a copy of each value.
\<close>

definition grpc_mdstr_hash_table_create_trace ::
  "('v \<Rightarrow> 'v) \<Rightarrow> nat \<Rightarrow> (string \<times> 'v) list \<Rightarrow> 'v event list" where
  "grpc_mdstr_hash_table_create_trace copy_value num_entries es =
     concat (map (\<lambda>(k, v). [Mdstr_ref k, Copy_value (copy_value v)]) (take num_entries es))"

text \<open>
  Modelled from the spec: \<open>grpc_mdstr_hash_table_get\<close> is not part of the file. It is
  the "point lookup" of the table, NULL (\<open>None\<close>) for a key the table does not have.
  For a key that occurs twice the spec leaves the winner open ("last-writer semantics
  are undefined"); the lookup takes the first, and nothing below depends on that.
\<close>

definition grpc_mdstr_hash_table_get :: "'v grpc_mdstr_hash_table \<Rightarrow> string \<Rightarrow> 'v option" where
  "grpc_mdstr_hash_table_get table k = map_of table k"

subsection \<open>\<open>grpc_service_config_create_method_config_table\<close>\<close>

fun method_config_loop ::
  "(grpc_json \<Rightarrow> 'v option) \<Rightarrow> ('v \<Rightarrow> 'v) \<Rightarrow> nat \<Rightarrow> grpc_json list \<Rightarrow> 'v staging
     \<Rightarrow> fault + (bool \<times> 'v staging)" where
  "method_config_loop create_value copy_value num_entries [] st = Inr (True, st)"
| "method_config_loop create_value copy_value num_entries (method # rest) st =
     (case parse_json_method_config create_value copy_value method num_entries st of
        Inl f \<Rightarrow> Inl f
      | Inr (ok, st') \<Rightarrow>
          if ok then method_config_loop create_value copy_value num_entries rest st'
          else Inr (False, st'))"

fun num_entries_loop :: "grpc_json list \<Rightarrow> nat \<Rightarrow> nat" where
  "num_entries_loop [] num_entries = num_entries"
| "num_entries_loop (method # rest) num_entries =
     num_entries_loop rest (num_entries + count_names_in_method_config_json method)"

text \<open>The clean-up loop of the success path, over the \<open>num_entries\<close> slots.\<close>

definition clean_up_trace :: "nat \<Rightarrow> (string \<times> 'v) list \<Rightarrow> 'v event list" where
  "clean_up_trace num_entries es =
     concat (map (\<lambda>(k, v). [Mdstr_unref k, Destroy_value v]) (take num_entries es))
     @ [Free_entries]"

text \<open>
  The loop over the top-level fields carries \<open>num_entries\<close>, the pointer \<open>entries\<close>
  (\<open>None\<close> while it is NULL) and the log. A returned \<open>None\<close> is the NULL pointer.
  \<open>gpr_malloc\<close> is not part of the file; the pointer it returns is taken to be
  non-NULL, also for zero slots. That matters for an empty \<open>"methodConfig"\<close> array
  only, about which nothing is stated below.
\<close>

fun method_config_table_loop ::
  "(grpc_json \<Rightarrow> 'v option) \<Rightarrow> ('v \<Rightarrow> 'v) \<Rightarrow> grpc_json list \<Rightarrow> nat
     \<Rightarrow> (string \<times> 'v) list option \<Rightarrow> 'v event list
     \<Rightarrow> fault + ('v grpc_mdstr_hash_table option \<times> 'v event list)" where
  "method_config_table_loop create_value copy_value [] num_entries ents tr =
     (case ents of
        None \<Rightarrow> Inr (None, tr)
      | Some es \<Rightarrow>
          Inr (Some (grpc_mdstr_hash_table_create copy_value num_entries es),
               tr @ grpc_mdstr_hash_table_create_trace copy_value num_entries es
                  @ clean_up_trace num_entries es))"
| "method_config_table_loop create_value copy_value (field # rest) num_entries ents tr =
     (case json_key field of
        None \<Rightarrow> Inr (None, tr)
      | Some k \<Rightarrow>
          if k = ''methodConfig'' then
            (case ents of
               Some _ \<Rightarrow> Inr (None, tr)
             | None \<Rightarrow>
                 if json_type field = GRPC_JSON_ARRAY then
                   (let n = num_entries_loop (json_child field) num_entries in
                    case method_config_loop create_value copy_value n (json_child field)
                           \<lparr>entries = [], trace = tr @ [Malloc_entries n]\<rparr> of
                      Inl f \<Rightarrow> Inl f
                    | Inr (ok, st) \<Rightarrow>
                        if ok then
                          if length (entries st) = n
                          then method_config_table_loop create_value copy_value rest n
                                 (Some (entries st)) (trace st)
                          else Inl Assertion_failed
                        else Inr (None, trace st))
                 else Inr (None, tr))
          else method_config_table_loop create_value copy_value rest num_entries ents tr)"

definition grpc_service_config_create_method_config_table ::
  "grpc_service_config \<Rightarrow> (grpc_json \<Rightarrow> 'v option) \<Rightarrow> ('v \<Rightarrow> 'v)
     \<Rightarrow> fault + ('v grpc_mdstr_hash_table option \<times> 'v event list)" where
  "grpc_service_config_create_method_config_table service_config create_value copy_value =
     (let json = json_tree service_config in
      if json_type json = GRPC_JSON_OBJECT then
        (case json_key json of
           Some _ \<Rightarrow> Inr (None, [])
         | None \<Rightarrow>
             method_config_table_loop create_value copy_value (json_child json) 0 None [])
      else Inr (None, []))"

subsection \<open>\<open>grpc_method_config_table_get\<close>\<close>

text \<open>
  \<open>strrchr\<close> gives the last occurrence of the character, here as its offset from the
  start of the string, or NULL (\<open>None\<close>) when there is none.
\<close>

fun strrchr_loop :: "string \<Rightarrow> char \<Rightarrow> nat \<Rightarrow> nat option \<Rightarrow> nat option" where
  "strrchr_loop [] c i found = found"
| "strrchr_loop (x # xs) c i found =
     strrchr_loop xs c (i + 1) (if x = c then Some i else found)"

definition strrchr :: "string \<Rightarrow> char \<Rightarrow> nat option" where
  "strrchr s c = strrchr_loop s c 0 None"

definition grpc_method_config_table_get ::
  "'v grpc_mdstr_hash_table \<Rightarrow> string \<Rightarrow> fault + 'v option" where
  "grpc_method_config_table_get table path =
     (case grpc_mdstr_hash_table_get table path of
        Some value \<Rightarrow> Inr (Some value)
      | None \<Rightarrow>
          (case strrchr path CHR ''/'' of
             None \<Rightarrow> Inl Null_pointer_offset
           | Some sep_minus_1 \<Rightarrow>
               (let len = sep_minus_1 + 1;
                    buf = take len path @ ''*''
                in Inr (grpc_mdstr_hash_table_get table buf))))"

subsection \<open>Notions the statements below use\<close>

text \<open>
  The values of the fields of an object that carry the key \<open>k\<close>, in document order.
\<close>

definition name_values :: "string \<Rightarrow> grpc_json list \<Rightarrow> string option list" where
  "name_values k cs = map json_value (filter (\<lambda>c. json_key c = Some k) cs)"

text \<open>
  The wildcard path in the words of the specification: "the prefix of \<open>path\<close> up to and
  including its last \<open>/\<close>", followed by \<open>*\<close>. It is defined apart from the pointer
  arithmetic of \<open>grpc_method_config_table_get\<close>, to which it is compared below.
\<close>

definition spec_wildcard_path :: "string \<Rightarrow> string" where
  "spec_wildcard_path path = rev (dropWhile (\<lambda>c. c \<noteq> CHR ''/'') (rev path)) @ ''*''"




section \<open>Properties\<close>

subsection \<open>The load-balancing policy name\<close>

lemma lb_policy_name_loop_keyless:
  "\<exists>f\<in>set fs. json_key f = None \<Longrightarrow> lb_policy_name_loop fs lb = None"
  by (induction fs arbitrary: lb) (auto split: option.splits)

lemma lb_policy_name_loop_duplicate:
  assumes "\<forall>f\<in>set fs. json_type f = GRPC_JSON_STRING \<longrightarrow> json_value f \<noteq> None"
    and "(lb \<noteq> None \<and> 1 \<le> length (filter (\<lambda>f. json_key f = Some ''loadBalancingPolicy'') fs))
         \<or> 2 \<le> length (filter (\<lambda>f. json_key f = Some ''loadBalancingPolicy'') fs)"
  shows "lb_policy_name_loop fs lb = None"
  using assms
proof (induction fs arbitrary: lb)
  case Nil
  then show ?case by simp
next
  case (Cons f fs)
  then show ?case
    by (cases "json_key f") (auto split: option.splits if_splits)
qed

lemma lb_policy_name_loop_absent:
  "\<forall>f\<in>set fs. json_key f \<noteq> Some ''loadBalancingPolicy'' \<Longrightarrow>
   lb_policy_name_loop fs lb = (if \<exists>f\<in>set fs. json_key f = None then None else lb)"
  by (induction fs arbitrary: lb) (auto split: option.splits)

text \<open>
  Claim C7, as the code has it. The function returns a \<open>const char*\<close>, and NULL is its
  only result without a policy name. For a document whose root is a keyless object, whose
  top-level fields all have keys and whose string nodes carry their value (as the parser
  builds them): unless exactly one top-level field has the key \<open>"loadBalancingPolicy"\<close>,
  the result is NULL. That covers two or more such fields (the duplicate) and none (the
  absent field), which return the same NULL.
\<close>

theorem lb_policy_name_duplicate_or_absent_is_null:
  assumes "json_type (json_tree sc) = GRPC_JSON_OBJECT"
    and "json_key (json_tree sc) = None"
    and "\<forall>f\<in>set (json_child (json_tree sc)). json_key f \<noteq> None"
    and "\<forall>f\<in>set (json_child (json_tree sc)).
           json_type f = GRPC_JSON_STRING \<longrightarrow> json_value f \<noteq> None"
    and "length (filter (\<lambda>f. json_key f = Some ''loadBalancingPolicy'')
                   (json_child (json_tree sc))) \<noteq> 1"
  shows "grpc_service_config_get_lb_policy_name sc = None"
proof (cases "length (filter (\<lambda>f. json_key f = Some ''loadBalancingPolicy'')
                        (json_child (json_tree sc))) = 0")
  case True
  then have "\<forall>f\<in>set (json_child (json_tree sc)). json_key f \<noteq> Some ''loadBalancingPolicy''"
    by (simp add: filter_empty_conv)
  then have "lb_policy_name_loop (json_child (json_tree sc)) None = None"
    by (simp add: lb_policy_name_loop_absent)
  then show ?thesis
    by (simp add: grpc_service_config_get_lb_policy_name_def Let_def split: option.splits)
next
  case False
  with assms(5) have "2 \<le> length (filter (\<lambda>f. json_key f = Some ''loadBalancingPolicy'')
                                     (json_child (json_tree sc)))"
    by arith
  with assms(4) have "lb_policy_name_loop (json_child (json_tree sc)) None = None"
    by (intro lb_policy_name_loop_duplicate) auto
  then show ?thesis
    by (simp add: grpc_service_config_get_lb_policy_name_def Let_def split: option.splits)
qed

text \<open>
  The theorem at \<open>{"loadBalancingPolicy": "round_robin", "loadBalancingPolicy": "pick_first"}\<close>
  and at \<open>{"other": "x"}\<close>.
\<close>

theorem lb_policy_name_duplicate_or_absent_is_null_witness:
  "grpc_service_config_get_lb_policy_name
     \<lparr>json_string = [], json_tree = Json GRPC_JSON_OBJECT None None
        [Json GRPC_JSON_STRING (Some ''loadBalancingPolicy'') (Some ''round_robin'') [],
         Json GRPC_JSON_STRING (Some ''loadBalancingPolicy'') (Some ''pick_first'') []]\<rparr> = None
   \<and> grpc_service_config_get_lb_policy_name
     \<lparr>json_string = [], json_tree = Json GRPC_JSON_OBJECT None None
        [Json GRPC_JSON_STRING (Some ''other'') (Some ''x'') []]\<rparr> = None"
proof
  show "grpc_service_config_get_lb_policy_name
     \<lparr>json_string = [], json_tree = Json GRPC_JSON_OBJECT None None
        [Json GRPC_JSON_STRING (Some ''loadBalancingPolicy'') (Some ''round_robin'') [],
         Json GRPC_JSON_STRING (Some ''loadBalancingPolicy'') (Some ''pick_first'') []]\<rparr> = None"
    by (rule lb_policy_name_duplicate_or_absent_is_null) simp_all
  show "grpc_service_config_get_lb_policy_name
     \<lparr>json_string = [], json_tree = Json GRPC_JSON_OBJECT None None
        [Json GRPC_JSON_STRING (Some ''other'') (Some ''x'') []]\<rparr> = None"
    by (rule lb_policy_name_duplicate_or_absent_is_null) simp_all
qed

text \<open>
  Claim C7 as it is written asks for a result in the absent case that differs from the
  rejection. The empty object \<open>{}\<close> and the duplicate above both give NULL, while one
  field gives its value.
\<close>

theorem lb_policy_name_absent_counterexample:
  "grpc_service_config_get_lb_policy_name
     \<lparr>json_string = [], json_tree = Json GRPC_JSON_OBJECT None None []\<rparr>
   = grpc_service_config_get_lb_policy_name
     \<lparr>json_string = [], json_tree = Json GRPC_JSON_OBJECT None None
        [Json GRPC_JSON_STRING (Some ''loadBalancingPolicy'') (Some ''round_robin'') [],
         Json GRPC_JSON_STRING (Some ''loadBalancingPolicy'') (Some ''pick_first'') []]\<rparr>
   \<and> grpc_service_config_get_lb_policy_name
     \<lparr>json_string = [], json_tree = Json GRPC_JSON_OBJECT None None []\<rparr> = None
   \<and> grpc_service_config_get_lb_policy_name
     \<lparr>json_string = [], json_tree = Json GRPC_JSON_OBJECT None None
        [Json GRPC_JSON_STRING (Some ''loadBalancingPolicy'') (Some ''round_robin'') []]\<rparr>
     = Some ''round_robin''"
  by (simp add: grpc_service_config_get_lb_policy_name_def)

text \<open>
  Claim C8. A document in which some top-level field has no key is rejected (NULL),
  whatever comes before that field: a well-formed \<open>"loadBalancingPolicy"\<close> string that
  was captured earlier is not returned.
\<close>

theorem lb_policy_name_keyless_field_rejects:
  "\<exists>f\<in>set (json_child (json_tree sc)). json_key f = None \<Longrightarrow>
   grpc_service_config_get_lb_policy_name sc = None"
  by (simp add: grpc_service_config_get_lb_policy_name_def Let_def lb_policy_name_loop_keyless
           split: option.splits)

theorem lb_policy_name_keyless_field_rejects_witness:
  "(\<exists>f\<in>set (json_child (json_tree
        \<lparr>json_string = [], json_tree = Json GRPC_JSON_OBJECT None None
           [Json GRPC_JSON_STRING (Some ''loadBalancingPolicy'') (Some ''round_robin'') [],
            Json GRPC_JSON_NUMBER None (Some ''1'') []]\<rparr>)). json_key f = None)
   \<and> grpc_service_config_get_lb_policy_name
        \<lparr>json_string = [], json_tree = Json GRPC_JSON_OBJECT None None
           [Json GRPC_JSON_STRING (Some ''loadBalancingPolicy'') (Some ''round_robin'') [],
            Json GRPC_JSON_NUMBER None (Some ''1'') []]\<rparr> = None"
proof -
  have h: "\<exists>f\<in>set (json_child (json_tree
        \<lparr>json_string = [], json_tree = Json GRPC_JSON_OBJECT None None
           [Json GRPC_JSON_STRING (Some ''loadBalancingPolicy'') (Some ''round_robin'') [],
            Json GRPC_JSON_NUMBER None (Some ''1'') []]\<rparr>)). json_key f = None"
    by simp
  from h lb_policy_name_keyless_field_rejects [OF h] show ?thesis
    by (rule conjI)
qed

subsection \<open>Call paths\<close>

lemma method_name_loop_valid:
  assumes "\<forall>c\<in>set cs. json_key c \<noteq> None \<and> json_type c = GRPC_JSON_STRING"
    and "(service_name = None \<and> name_values ''service'' cs = [Some service])
         \<or> (service_name = Some service \<and> name_values ''service'' cs = [])"
    and "(method_name = None
            \<and> name_values ''method'' cs = (case method of None \<Rightarrow> [] | Some m \<Rightarrow> [Some m]))
         \<or> (method_name = method \<and> name_values ''method'' cs = [])"
  shows "method_name_loop cs service_name method_name =
           Some (''/'' @ service @ ''/'' @ (case method of None \<Rightarrow> ''*'' | Some m \<Rightarrow> m))"
  using assms
proof (induction cs arbitrary: service_name method_name)
  case Nil
  then show ?case by (auto simp: name_values_def split: option.splits)
next
  case (Cons c cs)
  then show ?case
    by (cases "json_key c") (auto simp: name_values_def split: option.splits if_splits)
qed

lemma method_name_loop_accepts:
  assumes "method_name_loop cs service_name method_name = Some p"
  shows "(\<forall>c\<in>set cs. json_key c \<noteq> None \<and> json_type c = GRPC_JSON_STRING)
    \<and> (\<exists>service meth.
          ((service_name = None \<and> name_values ''service'' cs = [Some service])
            \<or> (service_name = Some service \<and> name_values ''service'' cs = []))
        \<and> ((method_name = None
              \<and> name_values ''method'' cs = (case meth of None \<Rightarrow> [] | Some m \<Rightarrow> [Some m]))
            \<or> (method_name = meth \<and> method_name \<noteq> None \<and> name_values ''method'' cs = []))
        \<and> p = ''/'' @ service @ ''/'' @ (case meth of None \<Rightarrow> ''*'' | Some m \<Rightarrow> m))"
  using assms
proof (induction cs arbitrary: service_name method_name)
  case Nil
  then show ?case by (auto simp: name_values_def split: option.splits)
next
  case (Cons c cs)
  show ?case
  proof (cases "json_key c")
    case None
    with Cons.prems show ?thesis by simp
  next
    case (Some k)
    with Cons.prems have ty: "json_type c = GRPC_JSON_STRING"
      by (simp split: if_splits)
    consider (svc) "k = ''service''" | (mth) "k = ''method''" | (other) "k \<noteq> ''service''" "k \<noteq> ''method''"
      by blast
    then show ?thesis
    proof cases
      case svc
      with Cons.prems Some ty obtain v where sn: "service_name = None" and v: "json_value c = Some v"
        and r: "method_name_loop cs (Some v) method_name = Some p"
        by (auto split: option.splits)
      from Cons.IH [OF r] show ?thesis
        using Some ty svc sn v by (auto simp: name_values_def)
    next
      case mth
      with Cons.prems Some ty obtain v where mn: "method_name = None" and v: "json_value c = Some v"
        and r: "method_name_loop cs service_name (Some v) = Some p"
        by (auto split: option.splits)
      from Cons.IH [OF r] show ?thesis
        using Some ty mth mn v
        by (auto simp: name_values_def) (rule exI [of _ "Some v"], simp)+
    next
      case other
      with Cons.prems Some ty have r: "method_name_loop cs service_name method_name = Some p"
        by simp
      from Cons.IH [OF r] show ?thesis
        using Some ty other by (auto simp: name_values_def)
    qed
  qed
qed

text \<open>
  The objects that \<open>parse_json_method_name\<close> accepts are the valid name objects of
  claim C5 and no others.
\<close>

lemma parse_json_method_name_accepts_only_valid:
  assumes "parse_json_method_name json = Some p"
  shows "json_type json = GRPC_JSON_OBJECT
    \<and> (\<forall>c\<in>set (json_child json). json_key c \<noteq> None \<and> json_type c = GRPC_JSON_STRING)
    \<and> (\<exists>service meth.
          name_values ''service'' (json_child json) = [Some service]
        \<and> name_values ''method'' (json_child json) =
            (case meth of None \<Rightarrow> [] | Some m \<Rightarrow> [Some m])
        \<and> p = ''/'' @ service @ ''/'' @ (case meth of None \<Rightarrow> ''*'' | Some m \<Rightarrow> m))"
proof -
  from assms have ty: "json_type json = GRPC_JSON_OBJECT"
    and l: "method_name_loop (json_child json) None None = Some p"
    by (simp_all add: parse_json_method_name_def split: if_splits)
  from method_name_loop_accepts [OF l] ty show ?thesis
    by auto
qed

text \<open>
  Claim C5. A valid name object is an object whose fields all have a key and a string
  value, with exactly one \<open>"service"\<close> field and at most one \<open>"method"\<close> field, each
  carrying a string. Its call path is \<open>/service/method\<close> when the method is there and
  \<open>/service/*\<close> when it is not.
\<close>

theorem parse_json_method_name_path:
  assumes "json_type json = GRPC_JSON_OBJECT"
    and "\<forall>c\<in>set (json_child json). json_key c \<noteq> None \<and> json_type c = GRPC_JSON_STRING"
    and "name_values ''service'' (json_child json) = [Some service]"
    and "name_values ''method'' (json_child json) =
           (case method of None \<Rightarrow> [] | Some m \<Rightarrow> [Some m])"
  shows "parse_json_method_name json =
           Some (''/'' @ service @ ''/'' @ (case method of None \<Rightarrow> ''*'' | Some m \<Rightarrow> m))"
  using assms method_name_loop_valid [of "json_child json" None service None "method"]
  by (simp add: parse_json_method_name_def)

text \<open>
  The theorem at \<open>{"service": "svc"}\<close> and at \<open>{"service": "svc", "method": "Method"}\<close>.
\<close>

theorem parse_json_method_name_path_witness:
  "parse_json_method_name
     (Json GRPC_JSON_OBJECT None None
        [Json GRPC_JSON_STRING (Some ''service'') (Some ''svc'') []]) = Some ''/svc/*''
   \<and> parse_json_method_name
     (Json GRPC_JSON_OBJECT None None
        [Json GRPC_JSON_STRING (Some ''service'') (Some ''svc'') [],
         Json GRPC_JSON_STRING (Some ''method'') (Some ''Method'') []]) = Some ''/svc/Method''"
proof
  show "parse_json_method_name
     (Json GRPC_JSON_OBJECT None None
        [Json GRPC_JSON_STRING (Some ''service'') (Some ''svc'') []]) = Some ''/svc/*''"
    using parse_json_method_name_path
      [of "Json GRPC_JSON_OBJECT None None
             [Json GRPC_JSON_STRING (Some ''service'') (Some ''svc'') []]" "''svc''" None]
    by (simp add: name_values_def)
  show "parse_json_method_name
     (Json GRPC_JSON_OBJECT None None
        [Json GRPC_JSON_STRING (Some ''service'') (Some ''svc'') [],
         Json GRPC_JSON_STRING (Some ''method'') (Some ''Method'') []]) = Some ''/svc/Method''"
    using parse_json_method_name_path
      [of "Json GRPC_JSON_OBJECT None None
             [Json GRPC_JSON_STRING (Some ''service'') (Some ''svc'') [],
              Json GRPC_JSON_STRING (Some ''method'') (Some ''Method'') []]"
          "''svc''" "Some ''Method''"]
    by (simp add: name_values_def)
qed

subsection \<open>Lookup\<close>

lemma strrchr_loop_absent: "c \<notin> set s \<Longrightarrow> strrchr_loop s c i found = found"
  by (induction s arbitrary: i found) auto

lemma strrchr_loop_last:
  "c \<notin> set suf \<Longrightarrow> strrchr_loop (pre @ c # suf) c i found = Some (i + length pre)"
  by (induction pre arbitrary: i found) (auto simp: strrchr_loop_absent)

lemma spec_wildcard_path_split:
  "CHR ''/'' \<notin> set suf \<Longrightarrow> spec_wildcard_path (pre @ ''/'' @ suf) = pre @ ''/*''"
  by (auto simp: spec_wildcard_path_def dropWhile_append3)

text \<open>
  Claim C6. For every table and every path with at least one \<open>/\<close>: the lookup returns
  the value of the exact match when the path is a key of the table; otherwise what the
  table holds for the wildcard path (the prefix of the path up to and including its last
  \<open>/\<close>, then \<open>*\<close>), which is absent when that is no key either. No other key is tried.
\<close>

theorem table_get_exact_then_wildcard:
  assumes "CHR ''/'' \<in> set path"
  shows "grpc_method_config_table_get table path =
    Inr (case grpc_mdstr_hash_table_get table path of
           Some v \<Rightarrow> Some v
         | None \<Rightarrow> grpc_mdstr_hash_table_get table (spec_wildcard_path path))"
proof -
  from assms obtain pre suf
    where p: "path = pre @ CHR ''/'' # suf" and s: "CHR ''/'' \<notin> set suf"
    by (meson split_list_last)
  have "strrchr path CHR ''/'' = Some (length pre)"
    using s by (simp add: p strrchr_def strrchr_loop_last)
  moreover have "take (length pre + 1) path = pre @ ''/''"
    by (simp add: p)
  moreover have "spec_wildcard_path path = pre @ ''/*''"
    using spec_wildcard_path_split [OF s, of pre] by (simp add: p)
  ultimately show ?thesis
    by (simp add: grpc_method_config_table_get_def Let_def split: option.splits)
qed

text \<open>
  The theorem on the table \<open>/svc/Get \<mapsto> 1, /svc/* \<mapsto> 2, /* \<mapsto> 3\<close>: the exact entry, the
  wildcard entry of the service, and absent for another service although \<open>/*\<close> is a key.
\<close>

theorem table_get_exact_then_wildcard_witness:
  "grpc_method_config_table_get
     [(''/svc/Get'', 1::nat), (''/svc/*'', 2), (''/*'', 3)] ''/svc/Get'' = Inr (Some 1)
   \<and> grpc_method_config_table_get
     [(''/svc/Get'', 1::nat), (''/svc/*'', 2), (''/*'', 3)] ''/svc/Other'' = Inr (Some 2)
   \<and> grpc_method_config_table_get
     [(''/svc/Get'', 1::nat), (''/svc/*'', 2), (''/*'', 3)] ''/other/Get'' = Inr None"
proof (intro conjI)
  have h1: "CHR ''/'' \<in> set ''/svc/Get''" by simp
  show "grpc_method_config_table_get
     [(''/svc/Get'', 1::nat), (''/svc/*'', 2), (''/*'', 3)] ''/svc/Get'' = Inr (Some 1)"
    using table_get_exact_then_wildcard
            [OF h1, of "[(''/svc/Get'', 1::nat), (''/svc/*'', 2), (''/*'', 3)]"]
    by (simp add: grpc_mdstr_hash_table_get_def)
  have h2: "CHR ''/'' \<in> set ''/svc/Other''" by simp
  show "grpc_method_config_table_get
     [(''/svc/Get'', 1::nat), (''/svc/*'', 2), (''/*'', 3)] ''/svc/Other'' = Inr (Some 2)"
    using table_get_exact_then_wildcard
            [OF h2, of "[(''/svc/Get'', 1::nat), (''/svc/*'', 2), (''/*'', 3)]"]
    by (simp add: grpc_mdstr_hash_table_get_def spec_wildcard_path_def)
  have h3: "CHR ''/'' \<in> set ''/other/Get''" by simp
  show "grpc_method_config_table_get
     [(''/svc/Get'', 1::nat), (''/svc/*'', 2), (''/*'', 3)] ''/other/Get'' = Inr None"
    using table_get_exact_then_wildcard
            [OF h3, of "[(''/svc/Get'', 1::nat), (''/svc/*'', 2), (''/*'', 3)]"]
    by (simp add: grpc_mdstr_hash_table_get_def spec_wildcard_path_def)
qed

text \<open>
  Claim C9. The lookup has a defined result only for paths that contain a \<open>/\<close>: for a
  path without one that is no key of the table, \<open>strrchr\<close> returns NULL and the code
  adds one to it.
\<close>

theorem table_get_without_slash_undefined:
  "CHR ''/'' \<notin> set path \<Longrightarrow> grpc_mdstr_hash_table_get table path = None \<Longrightarrow>
   grpc_method_config_table_get table path = Inl Null_pointer_offset"
  by (simp add: grpc_method_config_table_get_def strrchr_def strrchr_loop_absent)

theorem table_get_without_slash_undefined_witness:
  "CHR ''/'' \<notin> set ''svc''
   \<and> grpc_mdstr_hash_table_get [(''/svc/*'', 2::nat)] ''svc'' = None
   \<and> grpc_method_config_table_get [(''/svc/*'', 2::nat)] ''svc'' = Inl Null_pointer_offset"
proof -
  have h1: "CHR ''/'' \<notin> set ''svc''" by simp
  have h2: "grpc_mdstr_hash_table_get [(''/svc/*'', 2::nat)] ''svc'' = None"
    by (simp add: grpc_mdstr_hash_table_get_def)
  from h1 h2 table_get_without_slash_undefined [OF h1 h2] show ?thesis
    by simp
qed

subsection \<open>Compiling the method-config table\<close>

lemma method_config_table_loop_absent:
  "\<forall>f\<in>set fs. json_key f \<noteq> None \<and> json_key f \<noteq> Some ''methodConfig'' \<Longrightarrow>
   method_config_table_loop create_value copy_value fs n None tr = Inr (None, tr)"
  by (induction fs) (auto split: option.splits)

text \<open>
  Claim C2, as the code has it. For a document whose root is a keyless object, whose
  top-level fields all have keys and none of them the key \<open>"methodConfig"\<close>, the function
  returns NULL: \<open>entries\<close> is still NULL after the scan, so no table is created. Neither
  the factory nor the vtable is called. NULL is also what every rejection returns.
\<close>

theorem method_config_table_absent_is_null:
  assumes "json_type (json_tree sc) = GRPC_JSON_OBJECT"
    and "json_key (json_tree sc) = None"
    and "\<forall>f\<in>set (json_child (json_tree sc)).
           json_key f \<noteq> None \<and> json_key f \<noteq> Some ''methodConfig''"
  shows "grpc_service_config_create_method_config_table sc create_value copy_value
           = Inr (None, [])"
  using assms
  by (simp add: grpc_service_config_create_method_config_table_def Let_def
        method_config_table_loop_absent)

text \<open>The theorem at \<open>{"loadBalancingPolicy": "round_robin"}\<close>.\<close>

theorem method_config_table_absent_is_null_witness:
  "grpc_service_config_create_method_config_table
     \<lparr>json_string = [], json_tree = Json GRPC_JSON_OBJECT None None
        [Json GRPC_JSON_STRING (Some ''loadBalancingPolicy'') (Some ''round_robin'') []]\<rparr>
     (\<lambda>e. Some (0::nat)) (\<lambda>v. v) = Inr (None, [])"
  by (rule method_config_table_absent_is_null) simp_all

text \<open>
  Claim C2 as it is written asks for an empty table. The empty object \<open>{}\<close> gives NULL,
  as does the rejected \<open>{"methodConfig": "x"}\<close>.
\<close>

theorem method_config_table_absent_counterexample:
  "grpc_service_config_create_method_config_table
     \<lparr>json_string = [], json_tree = Json GRPC_JSON_OBJECT None None []\<rparr>
     (\<lambda>e. Some (0::nat)) (\<lambda>v. v) = Inr (None, [])
   \<and> grpc_service_config_create_method_config_table
     \<lparr>json_string = [], json_tree = Json GRPC_JSON_OBJECT None None
         [Json GRPC_JSON_STRING (Some ''methodConfig'') (Some ''x'') []]\<rparr>
     (\<lambda>e. Some (0::nat)) (\<lambda>v. v) = Inr (None, [])"
  by (simp add: grpc_service_config_create_method_config_table_def)

text \<open>
  Claim C1 at \<open>{"methodConfig": [{"name": [{"service": "a"}]}, {}]}\<close>, with a factory
  that accepts every entry (its value is the number of fields of the entry) and a copy
  that adds 100. The second entry names no method, so the function returns NULL. The
  log ends there: the key \<open>/a/*\<close> and the copy \<open>101\<close> staged for the first entry are
  never released (no \<open>Mdstr_unref\<close>, no \<open>Destroy_value 101\<close>), nor is the buffer
  (no \<open>Free_entries\<close>).
\<close>

theorem method_config_table_rejection_leaks_staged_entries:
  "grpc_service_config_create_method_config_table
     \<lparr>json_string = [], json_tree = Json GRPC_JSON_OBJECT None None
        [Json GRPC_JSON_ARRAY (Some ''methodConfig'') None
           [Json GRPC_JSON_OBJECT None None
              [Json GRPC_JSON_ARRAY (Some ''name'') None
                 [Json GRPC_JSON_OBJECT None None
                    [Json GRPC_JSON_STRING (Some ''service'') (Some ''a'') []]]],
            Json GRPC_JSON_OBJECT None None []]]\<rparr>
     (\<lambda>e. Some (length (json_child e))) (\<lambda>v. v + 100)
   = Inr (None,
          [Malloc_entries 1,
           Create_value 1, Mdstr_from_string ''/a/*'', Copy_value 101, Destroy_value 1,
           Create_value 0, Destroy_value 0])"
  by (simp add: grpc_service_config_create_method_config_table_def
        parse_json_method_config_def count_names_in_method_config_json_def
        parse_json_method_name_def destroy_value_def grpc_mdstr_from_string_def)

text \<open>
  Claim C3 at \<open>{"methodConfig": [{"name": [{"service": "a"}, {"service": "b"}]}]}\<close>.
  The pre-pass counts the fields with the key \<open>"name"\<close>, here one; the compilation pass
  stages one entry per name object, here two. The second entry is written past the end
  of the one-slot buffer.
\<close>

theorem method_config_table_count_differs_from_staged:
  "num_entries_loop
     [Json GRPC_JSON_OBJECT None None
        [Json GRPC_JSON_ARRAY (Some ''name'') None
           [Json GRPC_JSON_OBJECT None None
              [Json GRPC_JSON_STRING (Some ''service'') (Some ''a'') []],
            Json GRPC_JSON_OBJECT None None
              [Json GRPC_JSON_STRING (Some ''service'') (Some ''b'') []]]]] 0 = 1
   \<and> method_config_paths_loop
        [Json GRPC_JSON_ARRAY (Some ''name'') None
           [Json GRPC_JSON_OBJECT None None
              [Json GRPC_JSON_STRING (Some ''service'') (Some ''a'') []],
            Json GRPC_JSON_OBJECT None None
              [Json GRPC_JSON_STRING (Some ''service'') (Some ''b'') []]]] []
      = Some [Some ''/a/*'', Some ''/b/*'']
   \<and> grpc_service_config_create_method_config_table
     \<lparr>json_string = [], json_tree = Json GRPC_JSON_OBJECT None None
        [Json GRPC_JSON_ARRAY (Some ''methodConfig'') None
           [Json GRPC_JSON_OBJECT None None
              [Json GRPC_JSON_ARRAY (Some ''name'') None
                 [Json GRPC_JSON_OBJECT None None
                    [Json GRPC_JSON_STRING (Some ''service'') (Some ''a'') []],
                  Json GRPC_JSON_OBJECT None None
                    [Json GRPC_JSON_STRING (Some ''service'') (Some ''b'') []]]]]]\<rparr>
     (\<lambda>e. Some (0::nat)) (\<lambda>v. v)
   = Inl Write_past_buffer_end"
  by (simp add: grpc_service_config_create_method_config_table_def
        parse_json_method_config_def count_names_in_method_config_json_def
        parse_json_method_name_def destroy_value_def grpc_mdstr_from_string_def)

text \<open>
  Claim C4 at \<open>{"methodConfig": [{"name": [{"method": "m"}]}]}\<close>. The name object has
  no \<open>"service"\<close>, and \<open>parse_json_method_name\<close> returns NULL for it. The NULL is added
  to the paths as if it were a path, and the document is not rejected: the NULL reaches
  \<open>grpc_mdstr_from_string\<close>.
\<close>

theorem method_config_table_name_without_service_not_rejected:
  "parse_json_method_name
     (Json GRPC_JSON_OBJECT None None
        [Json GRPC_JSON_STRING (Some ''method'') (Some ''m'') []]) = None
   \<and> grpc_service_config_create_method_config_table
     \<lparr>json_string = [], json_tree = Json GRPC_JSON_OBJECT None None
        [Json GRPC_JSON_ARRAY (Some ''methodConfig'') None
           [Json GRPC_JSON_OBJECT None None
              [Json GRPC_JSON_ARRAY (Some ''name'') None
                 [Json GRPC_JSON_OBJECT None None
                    [Json GRPC_JSON_STRING (Some ''method'') (Some ''m'') []]]]]]\<rparr>
     (\<lambda>e. Some (0::nat)) (\<lambda>v. v)
   = Inl Null_string_argument"
  by (simp add: grpc_service_config_create_method_config_table_def
        parse_json_method_config_def count_names_in_method_config_json_def
        parse_json_method_name_def destroy_value_def grpc_mdstr_from_string_def)

subsection \<open>Keyless fields of a method-config entry\<close>











end
